theory Spec2Isabelle
  imports Main "HOL-Library.Word"
begin

section \<open>The item store of passcards\<close>

text \<open>
  A shallow embedding of \<^verbatim>\<open>item_store.ts\<close>: the \<^verbatim>\<open>Item\<close> class, the
  \<^verbatim>\<open>Store\<close> interface it talks to, and the free functions
  \<^verbatim>\<open>generateRevisionId\<close>, \<^verbatim>\<open>itemStates\<close> and \<^verbatim>\<open>unlockStore\<close>.

  Conventions.
  \<^item> A JavaScript property that may hold \<^verbatim>\<open>undefined\<close>, \<^verbatim>\<open>null\<close> or a value is a
    \<open>nullable\<close>; the tests \<^verbatim>\<open>!x\<close> and \<^verbatim>\<open>x != null\<close> of the source are \<open>truthy\<close> and
    \<open>notNull\<close> (every value stored in such a property here is an object, so a value is
    always truthy).
  \<^item> A \<^verbatim>\<open>Date\<close> is its time value: an integer of milliseconds since the epoch, at
    most \<open>maxTime\<close> in absolute value, or the invalid date, whose time value is
    \<^verbatim>\<open>NaN\<close>. \<open>newDate\<close> is \<^verbatim>\<open>new Date(value)\<close>, which makes a value out of range or
    \<^verbatim>\<open>NaN\<close> the invalid date.
  \<^item> A \<^verbatim>\<open>number\<close> that the program computes from time values is an integer or
    \<^verbatim>\<open>NaN\<close>. On the time values of dates the arithmetic of the source is that of the
    integers: a sum of a time value and 1000 is exact in a double, and a difference of two
    time values compares with 1000 as the exact difference does.
  \<^item> A \<^verbatim>\<open>number\<close> that the program uses as an index or an enum is an \<open>int\<close>.
  \<^item> An object that the program hands to \<^verbatim>\<open>JSON.stringify\<close> is a \<open>jsvalue\<close>: its own
    properties in their order, with their values.
  \<^item> A method that mutates \<^verbatim>\<open>this\<close> returns the updated item; a method that returns
    a promise returns \<open>Inl err\<close> for a rejected promise and \<open>Inr v\<close> for a resolved one.
  \<^item> A store is an interface; its methods are the fields of a record of functions over
    a store handle \<open>'s\<close> and the state \<open>'w\<close> of everything behind the interface. A store
    method is handed the item by reference, so it returns the item as well.
\<close>

subsection \<open>Values and errors\<close>

datatype 'a nullable = Undefined | Null | Value 'a

fun truthy :: "'a nullable \<Rightarrow> bool" where
  "truthy (Value _) = True"
| "truthy _ = False"

fun notNull :: "'a nullable \<Rightarrow> bool" where
  "notNull (Value _) = True"
| "notNull _ = False"

datatype error =
    UnsavedItemError
  | Error string
  | DecryptionError

datatype number = Num int | NaN

fun num_plus :: "number \<Rightarrow> number \<Rightarrow> number" where
  "num_plus (Num a) (Num b) = Num (a + b)"
| "num_plus _ _ = NaN"

fun num_minus :: "number \<Rightarrow> number \<Rightarrow> number" where
  "num_minus (Num a) (Num b) = Num (a - b)"
| "num_minus _ _ = NaN"

text \<open>A comparison with \<^verbatim>\<open>NaN\<close> on either side is false.\<close>

fun num_less :: "number \<Rightarrow> number \<Rightarrow> bool" where
  "num_less (Num a) (Num b) = (a < b)"
| "num_less _ _ = False"

fun num_ge :: "number \<Rightarrow> number \<Rightarrow> bool" where
  "num_ge (Num a) (Num b) = (a \<ge> b)"
| "num_ge _ _ = False"

datatype Date = DateAt int | InvalidDate

definition maxTime :: int where
  "maxTime = 8640000000000000"

definition newDate :: "number \<Rightarrow> Date" where
  "newDate v =
     (case v of
        NaN \<Rightarrow> InvalidDate
      | Num t \<Rightarrow> if \<bar>t\<bar> \<le> maxTime then DateAt t else InvalidDate)"

fun getTime :: "Date \<Rightarrow> number" where
  "getTime (DateAt t) = Num t"
| "getTime InvalidDate = NaN"

datatype jsvalue =
    JUndefined
  | JNull
  | JBool bool
  | JNumber number
  | JString string
  | JDate Date
  | JArray "jsvalue list"
  | JObject "(string \<times> jsvalue) list"

type_synonym ItemType = string

definition LOGIN :: ItemType where
  "LOGIN = ''webforms.WebForm''"

definition TOMBSTONE :: ItemType where
  "TOMBSTONE = ''system.Tombstone''"

subsection \<open>Item content\<close>

datatype FieldType =
  Text | Password | Address | DateField | MonthYear | URL | CreditCardType
  | PhoneNumber | Gender | Email | Menu

datatype FormFieldType =
  FormText | FormPassword | FormEmail | FormCheckbox | FormInput

datatype FieldValue = StringValue string | NumberValue int

record ItemField =
  kind :: FieldType
  name :: string
  fieldTitle :: string
  val :: FieldValue

record ItemSection =
  sectionName :: string
  sectionTitle :: string
  sectionFields :: "ItemField list"

record WebFormField =
  fieldValue :: string
  fieldId :: string
  fieldName :: string
  fieldType :: FormFieldType
  designation :: string

record ItemUrl =
  label :: string
  url :: string

record ItemContent =
  sections :: "ItemSection list"
  urls :: "ItemUrl list"
  notesPlain :: string
  formFields :: "WebFormField list"
  htmlMethod :: string
  htmlAction :: string
  htmlId :: string

definition ContentUtil_empty :: ItemContent where
  "ContentUtil_empty =
     \<lparr> sections = [], urls = [], notesPlain = [], formFields = [],
       htmlMethod = [], htmlAction = [], htmlId = [] \<rparr>"

subsection \<open>Items\<close>

record 's Item =
  store :: "'s option"
  revision :: "string nullable"
  parentRevision :: "string nullable"
  uuid :: string
  folderUuid :: string
  faveIndex :: "int nullable"
  trashed :: bool
  updatedAt :: "Date nullable"
  createdAt :: "Date nullable"
  typeName :: ItemType
  title :: string
  openContents :: "jsvalue nullable"
  locations :: "string list"
  account :: "string nullable"
  content :: "ItemContent nullable"

text \<open>
  \<^verbatim>\<open>ItemAndContent\<close> is what \<^verbatim>\<open>generateRevisionId\<close> serialises: its content is
  the object as the serialiser sees it.
\<close>

record 's ItemAndContent =
  item :: "'s Item"
  itemContent :: jsvalue

record ItemState =
  stateUuid :: string
  stateRevision :: "string nullable"
  deleted :: bool

record ListItemsOptions =
  includeTombstones :: "bool option"

subsection \<open>The store interface\<close>

text \<open>
  Modelled from the spec: the type \<^verbatim>\<open>key_agent.Key\<close> of a stored key generation, whose
  declaration is not among the sources. The spec: "wrapped master-key records (identifier,
  wrapped key bytes, validation block, iteration count)".
\<close>

record Key =
  keyIdentifier :: string
  wrapped :: "8 word list"
  validation :: "8 word list"
  iterations :: int

record ('s, 'w) Store =
  store_saveItem :: "'s \<Rightarrow> 's Item \<Rightarrow> 'w \<Rightarrow> (error + unit) \<times> 's Item \<times> 'w"
  store_getContent :: "'s \<Rightarrow> 's Item \<Rightarrow> 'w \<Rightarrow> (error + ItemContent) \<times> 's Item \<times> 'w"
  store_getRawDecryptedData :: "'s \<Rightarrow> 's Item \<Rightarrow> 'w \<Rightarrow> (error + string) \<times> 's Item \<times> 'w"
  store_listItems :: "'s \<Rightarrow> ListItemsOptions \<Rightarrow> 'w \<Rightarrow> (error + 's Item list) \<times> 'w"
  store_listKeys :: "'s \<Rightarrow> 'w \<Rightarrow> (error + Key list) \<times> 'w"

subsection \<open>Methods of Item\<close>

definition getContent ::
  "('s, 'w) Store \<Rightarrow> 's Item \<Rightarrow> 'w \<Rightarrow> (error + ItemContent) \<times> 's Item \<times> 'w" where
  "getContent ops this w =
     (case content this of
        Value c \<Rightarrow> (Inr c, this, w)
      | _ \<Rightarrow>
        (case store this of
           None \<Rightarrow>
             (Inr ContentUtil_empty, this\<lparr>content := Value ContentUtil_empty\<rparr>, w)
         | Some s \<Rightarrow> store_getContent ops s this w))"

definition setContent :: "ItemContent \<Rightarrow> 's Item \<Rightarrow> 's Item" where
  "setContent c this = this\<lparr>content := Value c\<rparr>"

definition getRawDecryptedData ::
  "('s, 'w) Store \<Rightarrow> 's Item \<Rightarrow> 'w \<Rightarrow> (error + string) \<times> 's Item \<times> 'w" where
  "getRawDecryptedData ops this w =
     (case store this of
        None \<Rightarrow> (Inl UnsavedItemError, this, w)
      | Some s \<Rightarrow> store_getRawDecryptedData ops s this w)"

definition isSaved :: "'s Item \<Rightarrow> bool" where
  "isSaved this = (store this \<noteq> None \<and> notNull (updatedAt this))"

definition saveTo ::
  "('s, 'w) Store \<Rightarrow> 's \<Rightarrow> 's Item \<Rightarrow> 'w \<Rightarrow> (error + unit) \<times> 's Item \<times> 'w" where
  "saveTo ops s this w =
     (if \<not> truthy (content this) \<and> \<not> isSaved this
      then (Inl (Error ''Unable to save new item, no content set''), this, w)
      else store_saveItem ops s (this\<lparr>store := Some s\<rparr>) w)"

definition save ::
  "('s, 'w) Store \<Rightarrow> 's Item \<Rightarrow> 'w \<Rightarrow> (error + unit) \<times> 's Item \<times> 'w" where
  "save ops this w =
     (case store this of
        None \<Rightarrow> (Inl UnsavedItemError, this, w)
      | Some s \<Rightarrow> saveTo ops s this w)"

definition remove ::
  "('s, 'w) Store \<Rightarrow> 's Item \<Rightarrow> 'w \<Rightarrow> (error + unit) \<times> 's Item \<times> 'w" where
  "remove ops this w =
     (case store this of
        None \<Rightarrow> (Inl UnsavedItemError, this, w)
      | Some s \<Rightarrow>
          store_saveItem ops s
            (this\<lparr> typeName := TOMBSTONE,
                   title := ''Unnamed'',
                   trashed := True,
                   content := Value ContentUtil_empty,
                   folderUuid := [],
                   locations := [],
                   faveIndex := Null,
                   openContents := Null \<rparr>) w)"

definition isTombstone :: "'s Item \<Rightarrow> bool" where
  "isTombstone this = (typeName this = TOMBSTONE)"

text \<open>
  \<^verbatim>\<open>updateTimestamps\<close> reads the clock with \<^verbatim>\<open>new Date()\<close> once for
  \<^verbatim>\<open>createdAt\<close> (when that is unset) and once for \<^verbatim>\<open>updatedAt\<close>; the time values
  of the two readings are the arguments \<open>now0\<close> and \<open>now\<close>.
\<close>

definition updateTimestamps :: "int \<Rightarrow> int \<Rightarrow> 's Item \<Rightarrow> 's Item" where
  "updateTimestamps now0 now this =
     (let this1 = (if \<not> truthy (createdAt this)
                   then this\<lparr>createdAt := Value (DateAt now0)\<rparr> else this);
          prevDate = updatedAt this1;
          this2 = this1\<lparr>updatedAt := Value (DateAt now)\<rparr>
      in case prevDate of
           Value prev \<Rightarrow>
             (if num_less (num_minus (getTime (DateAt now)) (getTime prev)) (Num 1000)
              then this2\<lparr>updatedAt := Value (newDate (num_plus (getTime prev) (Num 1000)))\<rparr>
              else this2)
         | _ \<Rightarrow> this2)"

text \<open>
  The constructor. \<^verbatim>\<open>agile_keychain_crypto.newUUID()\<close> draws a random identifier; it
  is the argument \<open>fresh\<close>. \<^verbatim>\<open>uuid || newUUID()\<close> takes the fresh identifier when the
  argument is missing or the empty string. The properties the constructor does not assign
  stay \<^verbatim>\<open>undefined\<close>.
\<close>

definition newItem :: "'s option \<Rightarrow> string option \<Rightarrow> string \<Rightarrow> 's Item" where
  "newItem st uuidArg fresh =
     \<lparr> store = st,
       revision = Undefined,
       parentRevision = Undefined,
       uuid = (case uuidArg of None \<Rightarrow> fresh | Some u \<Rightarrow> if u = [] then fresh else u),
       folderUuid = [],
       faveIndex = Undefined,
       trashed = False,
       updatedAt = Undefined,
       createdAt = Undefined,
       typeName = LOGIN,
       title = [],
       openContents = Undefined,
       locations = [],
       account = Undefined,
       content = Undefined \<rparr>"

subsection \<open>Revision identifiers\<close>

text \<open>
  \<^verbatim>\<open>JSON.stringify\<close> is the language's. Its algorithm is written out here for the
  values the program serialises; the three conversions it leaves to the language, of a
  string to its quoted form, of a number to its decimal form and of a valid date to its
  ISO form, are arguments. \<^verbatim>\<open>collectionutil.bufferFromString\<close>, \<^verbatim>\<open>sha1.SHA1\<close> and
  \<^verbatim>\<open>collectionutil.hexlify\<close> are library code outside this module, and arguments as
  well. The digest buffer is the source's \<^verbatim>\<open>new Int32Array(5)\<close>:
  \<open>sha1_hash env buf i\<close> is the 32-bit word the hasher writes at index \<open>i\<close>.
\<close>

record RevisionEnv =
  QuoteJSONString :: "string \<Rightarrow> string"
  numberToString :: "int \<Rightarrow> string"
  toISOString :: "int \<Rightarrow> string"
  bufferFromString :: "string \<Rightarrow> 8 word list"
  sha1_hash :: "8 word list \<Rightarrow> nat \<Rightarrow> 32 word"
  hexlify :: "32 word list \<Rightarrow> string"

text \<open>The strings joined with commas between them.\<close>

fun join :: "string list \<Rightarrow> string" where
  "join [] = []"
| "join (x # xs) = x @ concat (map (\<lambda>y. CHR '','' # y) xs)"

text \<open>
  The serialisation of one value, \<open>None\<close> where the language gives \<^verbatim>\<open>undefined\<close>: a
  number that is not finite and a date that is invalid (through its \<^verbatim>\<open>toJSON\<close>) give
  \<^verbatim>\<open>null\<close>; an array element without a serialisation gives \<^verbatim>\<open>null\<close>; a property
  without a serialisation is left out of its object.
\<close>

primrec SerializeJSONProperty :: "RevisionEnv \<Rightarrow> jsvalue \<Rightarrow> string option" where
  "SerializeJSONProperty env JUndefined = None"
| "SerializeJSONProperty env JNull = Some ''null''"
| "SerializeJSONProperty env (JBool b) = Some (if b then ''true'' else ''false'')"
| "SerializeJSONProperty env (JNumber n) =
     Some (case n of NaN \<Rightarrow> ''null'' | Num i \<Rightarrow> numberToString env i)"
| "SerializeJSONProperty env (JString s) = Some (QuoteJSONString env s)"
| "SerializeJSONProperty env (JDate d) =
     Some (case d of
             InvalidDate \<Rightarrow> ''null''
           | DateAt t \<Rightarrow> QuoteJSONString env (toISOString env t))"
| "SerializeJSONProperty env (JArray xs) =
     Some (''['' @ join (map (\<lambda>r. case r of None \<Rightarrow> ''null'' | Some t \<Rightarrow> t)
                             (map (SerializeJSONProperty env) xs)) @ '']'')"
| "SerializeJSONProperty env (JObject ps) =
     Some (''{'' @ join (List.map_filter
                          (\<lambda>(k, r). map_option (\<lambda>t. QuoteJSONString env k @ '':'' @ t) r)
                          (map (map_prod id (SerializeJSONProperty env)) ps)) @ ''}'')"

text \<open>\<^verbatim>\<open>JSON.stringify\<close> of an object with the given own properties.\<close>

definition JSON_stringify :: "RevisionEnv \<Rightarrow> (string \<times> jsvalue) list \<Rightarrow> string" where
  "JSON_stringify env ps =
     ''{'' @ join (List.map_filter
                    (\<lambda>(k, v). map_option (\<lambda>t. QuoteJSONString env k @ '':'' @ t)
                                 (SerializeJSONProperty env v)) ps) @ ''}''"




subsection \<open>Listing item states\<close>

definition itemStates :: "('s, 'w) Store \<Rightarrow> 's \<Rightarrow> 'w \<Rightarrow> (error + ItemState list) \<times> 'w" where
  "itemStates ops s w =
     (case store_listItems ops s \<lparr>includeTombstones = Some True\<rparr> w of
        (Inl e, w') \<Rightarrow> (Inl e, w')
      | (Inr items, w') \<Rightarrow>
          (Inr (map (\<lambda>it. \<lparr> stateUuid = uuid it,
                              stateRevision = revision it,
                              deleted = isTombstone it \<rparr>) items), w'))"

subsection \<open>Unlocking a store\<close>

record DecryptedKey =
  decryptedId :: string
  decryptedKey :: "8 word list"

type_synonym KeyAgent = "string \<rightharpoonup> 8 word list"

text \<open>
  Modelled from the spec: \<^verbatim>\<open>KeyAgent.addKey\<close>, of the module \<^verbatim>\<open>key_agent\<close>, which
  is not among the sources. The spec: "idempotently registers a key for use by identifier;
  overwriting an existing identifier replaces it". The agent is the table from identifiers
  to key material.
\<close>

definition addKey :: "KeyAgent \<Rightarrow> string \<Rightarrow> 8 word list \<Rightarrow> KeyAgent" where
  "addKey agent ident k = agent(ident \<mapsto> k)"

text \<open>
  Modelled from the spec: \<^verbatim>\<open>key_agent.decryptKeys\<close>, of the same missing module.
  The spec: "derives a password key, attempts decryptKey against every stored key
  generation; succeeds if any generation validates; populates the Key Agent with all keys
  that validate", and fails with DecryptionError otherwise. The argument \<open>tryKey\<close> stands
  for the two cryptographic steps on one generation, deriving the password key and
  \<^verbatim>\<open>decryptKey\<close> with its validation check: \<open>Inr raw\<close> when the generation validates.
\<close>

definition decryptKeys ::
  "(string \<Rightarrow> Key \<Rightarrow> error + 8 word list) \<Rightarrow> Key list \<Rightarrow> string \<Rightarrow> error + DecryptedKey list" where
  "decryptKeys tryKey keys password =
     (let valid = List.map_filter
            (\<lambda>k. case tryKey password k of
                    Inr raw \<Rightarrow> Some \<lparr> decryptedId = keyIdentifier k, decryptedKey = raw \<rparr>
                  | Inl _ \<Rightarrow> None) keys
      in if valid = [] then Inl DecryptionError else Inr valid)"

definition unlockStore ::
  "('s, 'w) Store \<Rightarrow> (string \<Rightarrow> Key \<Rightarrow> error + 8 word list) \<Rightarrow> 's \<Rightarrow> KeyAgent \<Rightarrow> string \<Rightarrow> 'w
     \<Rightarrow> (error + unit) \<times> KeyAgent \<times> 'w" where
  "unlockStore ops tryKey s agent password w =
     (case store_listKeys ops s w of
        (Inl e, w') \<Rightarrow> (Inl e, agent, w')
      | (Inr keys, w') \<Rightarrow>
          if length keys = 0
          then (Inl (Error ''Unable to unlock store: No encryption keys have been saved''),
                agent, w')
          else (case decryptKeys tryKey keys password of
                  Inl e \<Rightarrow> (Inl e, agent, w')
                | Inr decrypted \<Rightarrow>
                    (Inr (),
                     fold (\<lambda>k a. addKey a (decryptedId k) (decryptedKey k)) decrypted agent,
                     w')))"

subsection \<open>Example stores, items and keys\<close>

text \<open>
  An implementation of the store interface whose state is the number of times
  \<^verbatim>\<open>getContent\<close> has fetched an item's content. Its methods resolve and leave the item
  they are handed as it is; it holds no items and no keys.
\<close>

definition countingStore :: "(unit, nat) Store" where
  "countingStore =
     \<lparr> store_saveItem = (\<lambda>s it n. (Inr (), it, n)),
       store_getContent = (\<lambda>s it n. (Inr ContentUtil_empty, it, Suc n)),
       store_getRawDecryptedData = (\<lambda>s it n. (Inr [], it, n)),
       store_listItems = (\<lambda>s opts n. (Inr [], n)),
       store_listKeys = (\<lambda>s n. (Inr [], n)) \<rparr>"

text \<open>An item of the store, and a tombstone.\<close>

definition facebookItem :: "unit Item" where
  "facebookItem =
     (newItem (Some ()) (Some ''CA20BB325873446966ED1F4E641B5A36'') [])
       \<lparr> title := ''Facebook'', revision := Value ''r1'' \<rparr>"

definition tombstoneItem :: "unit Item" where
  "tombstoneItem =
     (newItem (Some ()) (Some ''0B5F3A1C2D4E6F708192A3B4C5D6E7F8'') [])
       \<lparr> typeName := TOMBSTONE, title := ''Unnamed'', trashed := True,
         revision := Value ''r2'' \<rparr>"



text \<open>A store that lists the two, the tombstone only when asked for tombstones.\<close>

definition twoItemStore :: "(unit, nat) Store" where
  "twoItemStore =
     countingStore\<lparr> store_listItems := (\<lambda>s opts n.
       (Inr (if includeTombstones opts = Some True
             then [facebookItem, tombstoneItem] else [facebookItem]), n)) \<rparr>"

text \<open>
  A store with two key generations, and a password check under which the password
  \<^verbatim>\<open>logMEin\<close> validates against the second generation only.
\<close>

definition generation1 :: Key where
  "generation1 = \<lparr> keyIdentifier = ''gen1'', wrapped = [1, 2], validation = [3], iterations = 100 \<rparr>"

definition generation2 :: Key where
  "generation2 = \<lparr> keyIdentifier = ''gen2'', wrapped = [4, 5], validation = [6], iterations = 100 \<rparr>"

definition twoGenerationStore :: "(unit, nat) Store" where
  "twoGenerationStore =
     countingStore\<lparr> store_listKeys := (\<lambda>s n. (Inr [generation1, generation2], n)) \<rparr>"

definition secondGenerationOnly :: "string \<Rightarrow> Key \<Rightarrow> error + 8 word list" where
  "secondGenerationOnly p k =
     (if p = ''logMEin'' \<and> keyIdentifier k = ''gen2'' then Inr [7, 8] else Inl DecryptionError)"

section \<open>Properties\<close>

subsection \<open>Items that belong to no store\<close>

text \<open>
  C8. For every item that is associated with no store, \<^verbatim>\<open>save()\<close>, \<^verbatim>\<open>remove()\<close> and
  \<^verbatim>\<open>getRawDecryptedData()\<close> reject with \<^verbatim>\<open>UnsavedItemError\<close>; when such an item
  has no content set it counts as never saved, and \<^verbatim>\<open>saveTo(store)\<close> rejects with the
  error "Unable to save new item, no content set". In each of these cases the item comes
  back with every field as it was (\<^verbatim>\<open>remove()\<close> has made none of its tombstone
  assignments) and no store method has run.
\<close>

theorem unsaved_item_rejects:
  assumes "store this = None"
  shows "save ops this w = (Inl UnsavedItemError, this, w)
       \<and> remove ops this w = (Inl UnsavedItemError, this, w)
       \<and> getRawDecryptedData ops this w = (Inl UnsavedItemError, this, w)
       \<and> (\<not> truthy (content this) \<longrightarrow>
            \<not> isSaved this
            \<and> saveTo ops s this w
                = (Inl (Error ''Unable to save new item, no content set''), this, w))"
  using assms
  by (simp add: save_def remove_def getRawDecryptedData_def saveTo_def isSaved_def)

theorem unsaved_item_rejects_witness:
  "store (newItem None None ''0A'' :: unit Item) = None
   \<and> \<not> truthy (content (newItem None None ''0A'' :: unit Item))
   \<and> save countingStore (newItem None None ''0A'') 0
       = (Inl UnsavedItemError, newItem None None ''0A'', 0)
   \<and> remove countingStore (newItem None None ''0A'') 0
       = (Inl UnsavedItemError, newItem None None ''0A'', 0)
   \<and> getRawDecryptedData countingStore (newItem None None ''0A'') 0
       = (Inl UnsavedItemError, newItem None None ''0A'', 0)
   \<and> saveTo countingStore () (newItem None None ''0A'') 0
       = (Inl (Error ''Unable to save new item, no content set''), newItem None None ''0A'', 0)"
  using unsaved_item_rejects [of "newItem None None ''0A''" countingStore 0 "()"]
  by (simp add: newItem_def)

text \<open>
  C10. For every item with no store and no content set, \<^verbatim>\<open>getContent()\<close> resolves
  with the empty \<^verbatim>\<open>ItemContent\<close> (no sections, urls or form fields; notes, htmlMethod,
  htmlAction and htmlId the empty string) and stores that value on the instance, so that
  the next call returns it again; no store method runs, so no key or unlock is needed.
\<close>

theorem getContent_unsaved_empty:
  assumes "store this = None" and "\<not> truthy (content this)"
  shows "getContent ops this w
           = (Inr ContentUtil_empty, this\<lparr>content := Value ContentUtil_empty\<rparr>, w)
       \<and> getContent ops (this\<lparr>content := Value ContentUtil_empty\<rparr>) w'
           = (Inr ContentUtil_empty, this\<lparr>content := Value ContentUtil_empty\<rparr>, w')
       \<and> sections ContentUtil_empty = [] \<and> urls ContentUtil_empty = []
       \<and> formFields ContentUtil_empty = [] \<and> notesPlain ContentUtil_empty = []
       \<and> htmlMethod ContentUtil_empty = [] \<and> htmlAction ContentUtil_empty = []
       \<and> htmlId ContentUtil_empty = []"
  using assms
  by (cases "content this") (simp_all add: getContent_def ContentUtil_empty_def)

theorem getContent_unsaved_empty_witness:
  "store (newItem None None ''0A'' :: unit Item) = None
   \<and> \<not> truthy (content (newItem None None ''0A'' :: unit Item))
   \<and> getContent countingStore (newItem None None ''0A'') 0
       = (Inr ContentUtil_empty, (newItem None None ''0A'')\<lparr>content := Value ContentUtil_empty\<rparr>, 0)"
  using getContent_unsaved_empty [of "newItem None None ''0A''" countingStore 0 0]
  by (simp add: newItem_def)

subsection \<open>Removal\<close>

text \<open>Assigning to a field the value it holds changes nothing.\<close>

lemma store_update_same: "store (r :: 's Item) = v \<Longrightarrow> r\<lparr>store := v\<rparr> = r"
  by (cases r) simp

text \<open>
  C2. For every item associated with a store, \<^verbatim>\<open>remove()\<close> is a call of that store's
  \<^verbatim>\<open>saveItem\<close> on the item in tombstone form, and its outcome is the outcome of that
  call, the same as that of \<^verbatim>\<open>save()\<close> on the tombstone: the item handed over has the
  type \<^verbatim>\<open>Tombstone\<close>, is trashed, carries the empty content, has no locations and the
  empty folder identifier, and keeps its uuid and its store. What \<^verbatim>\<open>saveItem\<close> then
  does with the item is the store's business.
\<close>

theorem remove_tombstones:
  assumes "store this = Some s"
  shows "\<exists>t. remove ops this w = store_saveItem ops s t w
           \<and> remove ops this w = save ops t w
           \<and> typeName t = TOMBSTONE \<and> trashed t
           \<and> content t = Value ContentUtil_empty
           \<and> locations t = [] \<and> folderUuid t = []
           \<and> uuid t = uuid this \<and> store t = Some s"
proof -
  let ?t = "this\<lparr> typeName := TOMBSTONE, title := ''Unnamed'', trashed := True,
                   content := Value ContentUtil_empty, folderUuid := [], locations := [],
                   faveIndex := Null, openContents := Null \<rparr>"
  have call: "remove ops this w = store_saveItem ops s ?t w"
    using assms by (simp add: remove_def)
  have st: "?t\<lparr>store := Some s\<rparr> = ?t"
    using assms by (intro store_update_same) simp
  have "save ops ?t w = store_saveItem ops s (?t\<lparr>store := Some s\<rparr>) w"
    using assms by (simp add: save_def saveTo_def)
  then have same: "save ops ?t w = store_saveItem ops s ?t w"
    by (simp only: st)
  have form: "typeName ?t = TOMBSTONE \<and> trashed ?t \<and> content ?t = Value ContentUtil_empty
      \<and> locations ?t = [] \<and> folderUuid ?t = [] \<and> uuid ?t = uuid this \<and> store ?t = Some s"
    using assms by simp
  from call same form show ?thesis by metis
qed

theorem remove_tombstones_witness:
  "store facebookItem = Some ()
   \<and> (\<exists>t. remove countingStore facebookItem 0 = (Inr (), t, 0)
         \<and> save countingStore t 0 = (Inr (), t, 0)
         \<and> typeName t = TOMBSTONE \<and> trashed t
         \<and> content t = Value ContentUtil_empty
         \<and> locations t = [] \<and> folderUuid t = []
         \<and> uuid t = ''CA20BB325873446966ED1F4E641B5A36'')"
  using remove_tombstones [of facebookItem "()" countingStore 0]
  by (auto simp add: facebookItem_def newItem_def countingStore_def)

subsection \<open>Cached content\<close>

text \<open>
  C6, as the claim states it, fails: \<^verbatim>\<open>Item.getContent\<close> never assigns the content it
  obtains from the store. With a store whose \<^verbatim>\<open>getContent\<close> leaves the item alone, the
  first call fetches (the count goes from 0 to 1) and returns the item with its content
  still unset, and a second call on that item fetches again (from 1 to 2).
\<close>

theorem getContent_refetches_counterexample:
  "getContent countingStore facebookItem 0 = (Inr ContentUtil_empty, facebookItem, 1)
   \<and> getContent countingStore facebookItem 1 = (Inr ContentUtil_empty, facebookItem, 2)
   \<and> content facebookItem = Undefined"
  by (simp add: getContent_def facebookItem_def newItem_def countingStore_def)

text \<open>
  C6, amended. Content that is set on the instance, by \<^verbatim>\<open>setContent\<close> or otherwise, is
  what \<^verbatim>\<open>getContent()\<close> returns, with the item and the store state unchanged and no
  store method run. For an item that has a store and no content set, \<^verbatim>\<open>getContent()\<close>
  is the store's \<^verbatim>\<open>getContent\<close> on the item, on every call.
\<close>

theorem getContent_cached_or_delegated:
  "(content a = Value c \<longrightarrow> getContent ops a w = (Inr c, a, w))
   \<and> getContent ops (setContent c b) w = (Inr c, setContent c b, w)
   \<and> (store d = Some s \<and> \<not> truthy (content d) \<longrightarrow>
        getContent ops d w = store_getContent ops s d w)"
  by (cases "content d") (simp_all add: getContent_def setContent_def)

theorem getContent_cached_or_delegated_witness:
  "content (setContent ContentUtil_empty facebookItem) = Value ContentUtil_empty
   \<and> getContent countingStore (setContent ContentUtil_empty facebookItem) 0
     = (Inr ContentUtil_empty, setContent ContentUtil_empty facebookItem, 0)
   \<and> store facebookItem = Some ()
   \<and> \<not> truthy (content facebookItem)
   \<and> getContent countingStore facebookItem 0
     = store_getContent countingStore () facebookItem 0"
  using getContent_cached_or_delegated
    [of "setContent ContentUtil_empty facebookItem" ContentUtil_empty countingStore 0
        facebookItem facebookItem "()"]
  by (simp add: facebookItem_def newItem_def setContent_def)

subsection \<open>Item states\<close>

text \<open>
  C7. For every store, when \<^verbatim>\<open>listItems({includeTombstones: true})\<close> resolves with a
  list of items, \<^verbatim>\<open>itemStates\<close> resolves with a list of the same length whose entry at
  each position carries the uuid and the revision of the item at that position, and is
  marked deleted exactly when that item has the tombstone type. Tombstones are asked for
  and are not filtered out.
\<close>

theorem itemStates_projection:
  assumes "store_listItems ops s \<lparr>includeTombstones = Some True\<rparr> w = (Inr items, w')"
  shows "\<exists>states. itemStates ops s w = (Inr states, w')
           \<and> length states = length items
           \<and> (\<forall>i < length items.
                 stateUuid (states ! i) = uuid (items ! i)
               \<and> stateRevision (states ! i) = revision (items ! i)
               \<and> (deleted (states ! i) \<longleftrightarrow> typeName (items ! i) = TOMBSTONE))"
  using assms by (simp add: itemStates_def isTombstone_def)

theorem itemStates_projection_witness:
  "store_listItems twoItemStore () \<lparr>includeTombstones = Some True\<rparr> 0
     = (Inr [facebookItem, tombstoneItem], 0)
   \<and> itemStates twoItemStore () 0
     = (Inr [\<lparr> stateUuid = ''CA20BB325873446966ED1F4E641B5A36'',
                stateRevision = Value ''r1'', deleted = False \<rparr>,
             \<lparr> stateUuid = ''0B5F3A1C2D4E6F708192A3B4C5D6E7F8'',
                stateRevision = Value ''r2'', deleted = True \<rparr>], 0)"
  using itemStates_projection [of twoItemStore "()" 0 "[facebookItem, tombstoneItem]" 0]
  by (simp add: itemStates_def isTombstone_def twoItemStore_def countingStore_def
        facebookItem_def tombstoneItem_def newItem_def LOGIN_def TOMBSTONE_def)

subsection \<open>Unlocking\<close>

text \<open>
  C9. For every store whose \<^verbatim>\<open>listKeys()\<close> resolves with the empty list,
  \<^verbatim>\<open>unlockStore\<close> rejects with the error "Unable to unlock store: No encryption keys
  have been saved", whatever the password, and the key agent is as it was.
\<close>

theorem unlockStore_no_keys:
  assumes "store_listKeys ops s w = (Inr [], w')"
  shows "unlockStore ops tryKey s agent password w
           = (Inl (Error ''Unable to unlock store: No encryption keys have been saved''),
              agent, w')"
  using assms by (simp add: unlockStore_def)

theorem unlockStore_no_keys_witness:
  "store_listKeys countingStore () 0 = (Inr [], 0)
   \<and> unlockStore countingStore secondGenerationOnly () [''gen0'' \<mapsto> [9]] ''logMEin'' 0
       = (Inl (Error ''Unable to unlock store: No encryption keys have been saved''),
          [''gen0'' \<mapsto> [9]], 0)"
  using unlockStore_no_keys
    [of countingStore "()" 0 0 secondGenerationOnly "[''gen0'' \<mapsto> [9]]" "''logMEin''"]
  by (simp add: countingStore_def)

text \<open>The keys that \<^verbatim>\<open>unlockStore\<close> adds to the agent.\<close>

lemma fold_addKey_dom:
  "dom (fold (\<lambda>k a. addKey a (decryptedId k) (decryptedKey k)) ds agent)
     = dom agent \<union> decryptedId ` set ds"
  by (induction ds arbitrary: agent) (auto simp: addKey_def)

lemma fold_addKey_origin:
  "fold (\<lambda>k a. addKey a (decryptedId k) (decryptedKey k)) ds agent i = Some r
   \<Longrightarrow> agent i = Some r \<or> (\<exists>d\<in>set ds. decryptedId d = i \<and> decryptedKey d = r)"
proof (induction ds arbitrary: agent)
  case Nil
  then show ?case by simp
next
  case (Cons d ds)
  from Cons.IH [of "addKey agent (decryptedId d) (decryptedKey d)"] Cons.prems
  show ?case by (auto simp: addKey_def split: if_splits)
qed

lemma set_valid_keys:
  "set (List.map_filter
          (\<lambda>k. case tryKey pw k of
                  Inr raw \<Rightarrow> Some \<lparr> decryptedId = keyIdentifier k, decryptedKey = raw \<rparr>
                | Inl _ \<Rightarrow> None) keys)
     = {\<lparr> decryptedId = keyIdentifier k, decryptedKey = raw \<rparr> | k raw.
          k \<in> set keys \<and> tryKey pw k = Inr raw}"
proof (induction keys)
  case Nil
  show ?case by (simp add: map_filter_simps)
next
  case (Cons k ks)
  show ?case
  proof (cases "tryKey pw k")
    case (Inl e)
    with Cons show ?thesis by (auto simp: map_filter_simps)
  next
    case (Inr raw)
    with Cons show ?thesis by (auto simp: map_filter_simps)
  qed
qed

lemma decryptKeys_none:
  "(\<forall>k\<in>set keys. \<forall>raw. tryKey pw k \<noteq> Inr raw) \<Longrightarrow> decryptKeys tryKey keys pw = Inl DecryptionError"
proof -
  assume none: "\<forall>k\<in>set keys. \<forall>raw. tryKey pw k \<noteq> Inr raw"
  have "set (List.map_filter
          (\<lambda>k. case tryKey pw k of
                  Inr raw \<Rightarrow> Some \<lparr> decryptedId = keyIdentifier k, decryptedKey = raw \<rparr>
                | Inl _ \<Rightarrow> None) keys) = {}"
    unfolding set_valid_keys using none by blast
  then show ?thesis by (simp add: decryptKeys_def)
qed

lemma fold_addKey_other:
  "i \<notin> decryptedId ` set ds
   \<Longrightarrow> fold (\<lambda>k a. addKey a (decryptedId k) (decryptedKey k)) ds agent i = agent i"
  by (induction ds arbitrary: agent) (auto simp: addKey_def)

lemma fold_addKey_last:
  assumes "\<forall>d'\<in>set ds2. decryptedId d' \<noteq> decryptedId d"
  shows "fold (\<lambda>k a. addKey a (decryptedId k) (decryptedKey k)) (ds1 @ d # ds2) agent
           (decryptedId d) = Some (decryptedKey d)"
proof -
  let ?f = "\<lambda>k a. addKey a (decryptedId k) (decryptedKey k)"
  have n: "decryptedId d \<notin> decryptedId ` set ds2" using assms by auto
  have "fold ?f (ds1 @ d # ds2) agent (decryptedId d)
      = addKey (fold ?f ds1 agent) (decryptedId d) (decryptedKey d) (decryptedId d)"
    by (simp add: fold_addKey_other [OF n])
  also have "\<dots> = Some (decryptedKey d)" by (simp add: addKey_def)
  finally show ?thesis .
qed

lemma valid_keys_append:
  "List.map_filter f (xs @ ys) = List.map_filter f xs @ List.map_filter f ys"
  by (simp add: List.map_filter_def)

text \<open>
  C5. For every store that holds one or more key generations: if the password validates
  against at least one of them, \<^verbatim>\<open>unlockStore\<close> resolves, and afterwards the key agent
  holds, under the identifier of every generation that validates, the key material of that
  generation (of the last such generation in the store's order, when several validating
  generations share an identifier), replacing what it held under that identifier; under
  every other identifier it holds what it held before. If the password validates against
  no generation, \<^verbatim>\<open>unlockStore\<close> rejects with \<^verbatim>\<open>DecryptionError\<close> and the agent is
  as it was.
\<close>

theorem unlockStore_any_generation:
  assumes "store_listKeys ops s w = (Inr keys, w')" and "keys \<noteq> []"
  shows "((\<exists>k\<in>set keys. \<exists>raw. tryKey pw k = Inr raw) \<longrightarrow>
            (\<exists>agent'. unlockStore ops tryKey s agent pw w = (Inr (), agent', w')
               \<and> (\<forall>ks1 k ks2 raw.
                     keys = ks1 @ k # ks2 \<and> tryKey pw k = Inr raw
                     \<and> (\<forall>k'\<in>set ks2. keyIdentifier k' = keyIdentifier k \<longrightarrow>
                            (\<forall>r. tryKey pw k' \<noteq> Inr r))
                     \<longrightarrow> agent' (keyIdentifier k) = Some raw)
               \<and> (\<forall>i. (\<forall>k\<in>set keys. keyIdentifier k = i \<longrightarrow> (\<forall>r. tryKey pw k \<noteq> Inr r))
                     \<longrightarrow> agent' i = agent i)
               \<and> dom agent' = dom agent
                    \<union> {keyIdentifier k | k. k \<in> set keys \<and> (\<exists>raw. tryKey pw k = Inr raw)}
               \<and> (\<forall>i r. agent' i = Some r \<longrightarrow>
                     agent i = Some r
                   \<or> (\<exists>k\<in>set keys. keyIdentifier k = i \<and> tryKey pw k = Inr r))))
       \<and> ((\<forall>k\<in>set keys. \<forall>raw. tryKey pw' k \<noteq> Inr raw) \<longrightarrow>
            unlockStore ops tryKey s agent pw' w = (Inl DecryptionError, agent, w'))"
proof (intro conjI impI)
  let ?f = "\<lambda>k. case tryKey pw k of
                  Inr raw \<Rightarrow> Some \<lparr> decryptedId = keyIdentifier k, decryptedKey = raw \<rparr>
                | Inl _ \<Rightarrow> None"
  let ?ds = "List.map_filter ?f keys"
  let ?agent' = "fold (\<lambda>k a. addKey a (decryptedId k) (decryptedKey k)) ?ds agent"
  assume "\<exists>k\<in>set keys. \<exists>raw. tryKey pw k = Inr raw"
  then obtain k raw where k: "k \<in> set keys" "tryKey pw k = Inr raw" by blast
  have sds: "set ?ds = {\<lparr> decryptedId = keyIdentifier k, decryptedKey = raw \<rparr> | k raw.
                         k \<in> set keys \<and> tryKey pw k = Inr raw}"
    by (rule set_valid_keys)
  have "\<lparr> decryptedId = keyIdentifier k, decryptedKey = raw \<rparr> \<in> set ?ds"
    unfolding sds using k by blast
  then have "?ds \<noteq> []" by auto
  then have ds: "decryptKeys tryKey keys pw = Inr ?ds" by (simp add: decryptKeys_def)
  have run: "unlockStore ops tryKey s agent pw w = (Inr (), ?agent', w')"
    using assms ds by (simp add: unlockStore_def)
  have ids: "decryptedId ` set ?ds
      = {keyIdentifier k | k. k \<in> set keys \<and> (\<exists>raw. tryKey pw k = Inr raw)}"
    unfolding sds by force
  have d: "dom ?agent' = dom agent
      \<union> {keyIdentifier k | k. k \<in> set keys \<and> (\<exists>raw. tryKey pw k = Inr raw)}"
    by (simp only: fold_addKey_dom ids)
  have o: "\<forall>i r. ?agent' i = Some r \<longrightarrow>
              agent i = Some r \<or> (\<exists>k\<in>set keys. keyIdentifier k = i \<and> tryKey pw k = Inr r)"
  proof (intro allI impI)
    fix i r assume "?agent' i = Some r"
    from fold_addKey_origin [OF this]
    show "agent i = Some r \<or> (\<exists>k\<in>set keys. keyIdentifier k = i \<and> tryKey pw k = Inr r)"
      unfolding sds by auto
  qed
  have l: "\<forall>ks1 k ks2 raw.
             keys = ks1 @ k # ks2 \<and> tryKey pw k = Inr raw
             \<and> (\<forall>k'\<in>set ks2. keyIdentifier k' = keyIdentifier k \<longrightarrow> (\<forall>r. tryKey pw k' \<noteq> Inr r))
             \<longrightarrow> ?agent' (keyIdentifier k) = Some raw"
  proof (intro allI impI, elim conjE)
    fix ks1 k ks2 raw
    assume split: "keys = ks1 @ k # ks2" and v: "tryKey pw k = Inr raw"
      and later: "\<forall>k'\<in>set ks2. keyIdentifier k' = keyIdentifier k \<longrightarrow> (\<forall>r. tryKey pw k' \<noteq> Inr r)"
    let ?d = "\<lparr> decryptedId = keyIdentifier k, decryptedKey = raw \<rparr>"
    have dsplit: "?ds = List.map_filter ?f ks1 @ ?d # List.map_filter ?f ks2"
      using v by (simp add: split valid_keys_append map_filter_simps)
    have "set (List.map_filter ?f ks2)
        = {\<lparr> decryptedId = keyIdentifier k, decryptedKey = raw \<rparr> | k raw.
             k \<in> set ks2 \<and> tryKey pw k = Inr raw}"
      by (rule set_valid_keys)
    then have "\<forall>d'\<in>set (List.map_filter ?f ks2). decryptedId d' \<noteq> decryptedId ?d"
      using later by auto
    from fold_addKey_last [OF this, of "List.map_filter ?f ks1" agent]
    show "?agent' (keyIdentifier k) = Some raw"
      by (simp only: dsplit) simp
  qed
  have u: "\<forall>i. (\<forall>k\<in>set keys. keyIdentifier k = i \<longrightarrow> (\<forall>r. tryKey pw k \<noteq> Inr r))
             \<longrightarrow> ?agent' i = agent i"
  proof (intro allI impI)
    fix i assume "\<forall>k\<in>set keys. keyIdentifier k = i \<longrightarrow> (\<forall>r. tryKey pw k \<noteq> Inr r)"
    then have "i \<notin> decryptedId ` set ?ds" unfolding ids by auto
    then show "?agent' i = agent i" by (rule fold_addKey_other)
  qed
  from run l u d o
  show "\<exists>agent'. unlockStore ops tryKey s agent pw w = (Inr (), agent', w')
               \<and> (\<forall>ks1 k ks2 raw.
                     keys = ks1 @ k # ks2 \<and> tryKey pw k = Inr raw
                     \<and> (\<forall>k'\<in>set ks2. keyIdentifier k' = keyIdentifier k \<longrightarrow>
                            (\<forall>r. tryKey pw k' \<noteq> Inr r))
                     \<longrightarrow> agent' (keyIdentifier k) = Some raw)
               \<and> (\<forall>i. (\<forall>k\<in>set keys. keyIdentifier k = i \<longrightarrow> (\<forall>r. tryKey pw k \<noteq> Inr r))
                     \<longrightarrow> agent' i = agent i)
               \<and> dom agent' = dom agent
                    \<union> {keyIdentifier k | k. k \<in> set keys \<and> (\<exists>raw. tryKey pw k = Inr raw)}
               \<and> (\<forall>i r. agent' i = Some r \<longrightarrow>
                     agent i = Some r
                   \<or> (\<exists>k\<in>set keys. keyIdentifier k = i \<and> tryKey pw k = Inr r))"
    by (intro exI [of _ ?agent'] conjI)
next
  assume "\<forall>k\<in>set keys. \<forall>raw. tryKey pw' k \<noteq> Inr raw"
  with decryptKeys_none [of keys tryKey pw']
  have "decryptKeys tryKey keys pw' = Inl DecryptionError" by blast
  then show "unlockStore ops tryKey s agent pw' w = (Inl DecryptionError, agent, w')"
    using assms by (simp add: unlockStore_def)
qed

theorem unlockStore_any_generation_witness:
  "store_listKeys twoGenerationStore () 0 = (Inr [generation1, generation2], 0)
   \<and> [generation1, generation2] \<noteq> []
   \<and> secondGenerationOnly ''logMEin'' generation1 = Inl DecryptionError
   \<and> secondGenerationOnly ''logMEin'' generation2 = Inr [7, 8]
   \<and> (\<exists>agent'.
        unlockStore twoGenerationStore secondGenerationOnly ()
          [''gen0'' \<mapsto> [9], ''gen2'' \<mapsto> [0, 0]] ''logMEin'' 0 = (Inr (), agent', 0)
        \<and> agent' ''gen2'' = Some [7, 8]
        \<and> agent' ''gen0'' = Some [9]
        \<and> agent' ''gen1'' = None)
   \<and> unlockStore twoGenerationStore secondGenerationOnly ()
        [''gen0'' \<mapsto> [9], ''gen2'' \<mapsto> [0, 0]] ''wrong-password'' 0
       = (Inl DecryptionError, [''gen0'' \<mapsto> [9], ''gen2'' \<mapsto> [0, 0]], 0)"
  using unlockStore_any_generation
    [of twoGenerationStore "()" 0 "[generation1, generation2]" 0 secondGenerationOnly
        "''logMEin''" "[''gen0'' \<mapsto> [9], ''gen2'' \<mapsto> [0, 0]]" "''wrong-password''"]
  by (simp add: unlockStore_def decryptKeys_def map_filter_simps addKey_def
        twoGenerationStore_def countingStore_def secondGenerationOnly_def
        generation1_def generation2_def)

subsection \<open>Revision identifiers\<close>






text \<open>\<open>JSON_stringify\<close> is the serialisation of the object with these properties.\<close>

lemma members_map:
  "List.map_filter (\<lambda>(k, r). map_option (F k) r) (map (map_prod id S) ps)
     = List.map_filter (\<lambda>(k, v). map_option (F k) (S v)) ps"
  by (induction ps) (auto simp: map_filter_simps split: option.splits)

lemma JSON_stringify_object:
  "SerializeJSONProperty env (JObject ps) = Some (JSON_stringify env ps)"
  by (simp add: JSON_stringify_def members_map)









subsection \<open>Timestamps\<close>

text \<open>
  C3, as the claim states it, fails at the end of the range of dates and for an invalid
  date. For an item last updated at the last representable time, saved when the clock
  reads less than a second more than that, \<^verbatim>\<open>new Date(prev + 1000)\<close> is the invalid
  date; for an item whose \<^verbatim>\<open>updatedAt\<close> is an invalid date, \<^verbatim>\<open>updatedAt\<close> becomes
  the clock reading. In both cases the difference of the two time values is
  \<^verbatim>\<open>NaN\<close>, which is not at least 1000.
\<close>

theorem updateTimestamps_end_of_range_counterexample:
  "updatedAt (updateTimestamps 1398413120000 1398413120000
                (facebookItem\<lparr>updatedAt := Value (DateAt 8640000000000000)\<rparr>))
     = Value InvalidDate
   \<and> newDate (Num 8640000000000000) = DateAt 8640000000000000
   \<and> \<not> num_ge (num_minus (getTime InvalidDate) (getTime (DateAt 8640000000000000))) (Num 1000)
   \<and> updatedAt (updateTimestamps 1398413120000 1398413120000
                (facebookItem\<lparr>updatedAt := Value InvalidDate\<rparr>))
     = Value (DateAt 1398413120000)
   \<and> \<not> num_ge (num_minus (getTime (DateAt 1398413120000)) (getTime InvalidDate)) (Num 1000)"
  by (simp add: updateTimestamps_def facebookItem_def newItem_def newDate_def maxTime_def)

text \<open>
  C3, amended. For every item whose \<^verbatim>\<open>updatedAt\<close> is a valid date at least one second
  before the last representable time, whatever the clock reads, \<^verbatim>\<open>updateTimestamps\<close>
  leaves \<^verbatim>\<open>updatedAt\<close> set to a date at least 1000 ms after the previous one (so
  strictly larger), also when the clock has advanced by less than a second, or not at
  all, since the previous save; that date is valid when the clock reading is.
\<close>

theorem updateTimestamps_min_step:
  assumes "updatedAt this = Value (DateAt prev)"
    and "\<bar>prev\<bar> \<le> maxTime"
    and "prev + 1000 \<le> maxTime"
  shows "\<exists>next. updatedAt (updateTimestamps now0 now this) = Value (DateAt next)
           \<and> next - prev \<ge> 1000 \<and> prev < next
           \<and> num_ge (num_minus (getTime (DateAt next)) (getTime (DateAt prev))) (Num 1000)
           \<and> (\<bar>now\<bar> \<le> maxTime \<longrightarrow> \<bar>next\<bar> \<le> maxTime)"
  using assms by (auto simp add: updateTimestamps_def Let_def newDate_def)

theorem updateTimestamps_min_step_witness:
  "updatedAt (facebookItem\<lparr>updatedAt := Value (DateAt 1398413120000)\<rparr>)
     = Value (DateAt 1398413120000)
   \<and> \<bar>1398413120000\<bar> \<le> maxTime
   \<and> 1398413120000 + 1000 \<le> maxTime
   \<and> updatedAt (updateTimestamps 1398413120200 1398413120200
                  (facebookItem\<lparr>updatedAt := Value (DateAt 1398413120000)\<rparr>))
       = Value (DateAt 1398413121000)
   \<and> updatedAt (updateTimestamps 1398413125000 1398413125000
                  (facebookItem\<lparr>updatedAt := Value (DateAt 1398413120000)\<rparr>))
       = Value (DateAt 1398413125000)"
  using updateTimestamps_min_step
    [of "facebookItem\<lparr>updatedAt := Value (DateAt 1398413120000)\<rparr>" 1398413120000
        1398413120200 1398413120200]
  by (simp add: updateTimestamps_def facebookItem_def newItem_def newDate_def maxTime_def)

end
